theory Spec2Isabelle
  imports
    Complex_Main
    "HOL-Library.Sublist"
    "HOL-Library.Char_ord"
    "HOL-Library.List_Lexorder"
begin

section \<open>Strings as the application handles them\<close>

text \<open>
  Strings are lists of 8-bit characters. Whitespace and letter case are those of ASCII:
  \<^verbatim>\<open>str.strip()\<close> removes the characters for which \<^verbatim>\<open>str.isspace()\<close> holds
  (codes 9 to 13 and 28 to 32), and case-insensitive comparison folds \<^verbatim>\<open>A-Z\<close> to
  \<^verbatim>\<open>a-z\<close>.
\<close>

definition is_space :: "char \<Rightarrow> bool" where
  "is_space c = (let n = (of_char c :: nat) in (9 \<le> n \<and> n \<le> 13) \<or> (28 \<le> n \<and> n \<le> 32))"

definition strip :: "string \<Rightarrow> string" where
  "strip s = rev (dropWhile is_space (rev (dropWhile is_space s)))"

definition to_lower :: "char \<Rightarrow> char" where
  "to_lower c = (let n = (of_char c :: nat) in if 65 \<le> n \<and> n \<le> 90 then char_of (n + 32) else c)"

definition lower :: "string \<Rightarrow> string" where
  "lower s = map to_lower s"

definition is_digit :: "char \<Rightarrow> bool" where
  "is_digit c = (let n = (of_char c :: nat) in 48 \<le> n \<and> n \<le> 57)"

definition digit_val :: "char \<Rightarrow> nat" where
  "digit_val c = of_char c - 48"

definition is_alnum :: "char \<Rightarrow> bool" where
  "is_alnum c = (let n = (of_char c :: nat) in
     (48 \<le> n \<and> n \<le> 57) \<or> (65 \<le> n \<and> n \<le> 90) \<or> (97 \<le> n \<and> n \<le> 122))"

text \<open>Python's \<^verbatim>\<open>x or d\<close> on an optional string: \<^verbatim>\<open>None\<close> and the empty string are falsy.\<close>

definition or_default :: "string option \<Rightarrow> string \<Rightarrow> string" where
  "or_default v d = (case v of None \<Rightarrow> d | Some s \<Rightarrow> if s = [] then d else s)"

section \<open>Floating-point values read from request parameters\<close>

text \<open>
  A Python float is a finite number, an infinity or a NaN. Finite values are kept exact
  (the decimal the string denotes); binary rounding, overflow and underflow are not
  modelled. The operations below are the ones \<^verbatim>\<open>app.py\<close> applies: multiplication
  and division by a positive constant and the comparison \<^verbatim>\<open>> 0\<close>.
\<close>

datatype pyfloat = Fin real | PInf | NInf | NaN

fun fmul_const :: "pyfloat \<Rightarrow> real \<Rightarrow> pyfloat" where
  "fmul_const (Fin x) k = Fin (x * k)"
| "fmul_const PInf k = PInf"
| "fmul_const NInf k = NInf"
| "fmul_const NaN k = NaN"

fun fdiv_const :: "pyfloat \<Rightarrow> real \<Rightarrow> pyfloat" where
  "fdiv_const (Fin x) k = Fin (x / k)"
| "fdiv_const PInf k = PInf"
| "fdiv_const NInf k = NInf"
| "fdiv_const NaN k = NaN"

fun fgt0 :: "pyfloat \<Rightarrow> bool" where
  "fgt0 (Fin x) = (0 < x)"
| "fgt0 PInf = True"
| "fgt0 NInf = False"
| "fgt0 NaN = False"


subsection \<open>The grammar accepted by \<^verbatim>\<open>float(str)\<close>\<close>

text \<open>
  \<^verbatim>\<open>float\<close> strips whitespace, then accepts an optional sign followed by
  \<^verbatim>\<open>inf\<close>, \<^verbatim>\<open>infinity\<close> or \<^verbatim>\<open>nan\<close> in any letter case, or by a decimal number
  (digits with single underscores between them, an optional fraction, an optional exponent).
  Anything else raises \<^verbatim>\<open>ValueError\<close>, which is \<open>None\<close> here.
\<close>

fun digits_rest :: "nat \<Rightarrow> nat \<Rightarrow> string \<Rightarrow> nat \<times> nat \<times> string" where
  "digits_rest v n [] = (v, n, [])"
| "digits_rest v n (c # cs) =
     (if is_digit c then digits_rest (10 * v + digit_val c) (Suc n) cs
      else if c = CHR ''_'' then
        (case cs of
           [] \<Rightarrow> (v, n, c # cs)
         | d # ds \<Rightarrow>
             if is_digit d then digits_rest (10 * v + digit_val d) (Suc n) ds
             else (v, n, c # cs))
      else (v, n, c # cs))"

definition digitpart :: "string \<Rightarrow> (nat \<times> nat \<times> string) option" where
  "digitpart s =
     (case s of
        [] \<Rightarrow> None
      | c # cs \<Rightarrow> if is_digit c then Some (digits_rest (digit_val c) 1 cs) else None)"

definition fraction :: "string \<Rightarrow> (real \<times> string) option" where
  "fraction s =
     (case digitpart s of
        None \<Rightarrow> None
      | Some (fv, fn, r) \<Rightarrow> Some (real fv / 10 ^ fn, r))"

definition parse_number :: "string \<Rightarrow> (real \<times> string) option" where
  "parse_number s =
     (case digitpart s of
        Some (iv, _, r) \<Rightarrow>
          (case r of
             [] \<Rightarrow> Some (real iv, r)
           | c # r' \<Rightarrow>
               if c = CHR ''.'' then
                 (case fraction r' of
                    None \<Rightarrow> Some (real iv, r')
                  | Some (f, r'') \<Rightarrow> Some (real iv + f, r''))
               else Some (real iv, r))
      | None \<Rightarrow>
          (case s of
             [] \<Rightarrow> None
           | c # r' \<Rightarrow> if c = CHR ''.'' then fraction r' else None))"

definition split_sign :: "string \<Rightarrow> bool \<times> string" where
  "split_sign s =
     (case s of
        [] \<Rightarrow> (False, s)
      | c # cs \<Rightarrow>
          if c = CHR ''-'' then (True, cs)
          else if c = CHR ''+'' then (False, cs)
          else (False, s))"

definition parse_exponent :: "string \<Rightarrow> int option" where
  "parse_exponent r =
     (case r of
        [] \<Rightarrow> Some 0
      | c # cs \<Rightarrow>
          if c = CHR ''e'' \<or> c = CHR ''E'' then
            (let (neg, ds) = split_sign cs in
             case digitpart ds of
               Some (ev, _, []) \<Rightarrow> Some (if neg then - int ev else int ev)
             | _ \<Rightarrow> None)
          else None)"

definition scale10 :: "real \<Rightarrow> int \<Rightarrow> real" where
  "scale10 m e = (if 0 \<le> e then m * 10 ^ nat e else m / 10 ^ nat (- e))"

definition py_float :: "string \<Rightarrow> pyfloat option" where
  "py_float s =
     (let (neg, u) = split_sign (strip s) in
      if lower u = ''inf'' \<or> lower u = ''infinity'' then Some (if neg then NInf else PInf)
      else if lower u = ''nan'' then Some NaN
      else
        (case parse_number u of
           None \<Rightarrow> None
         | Some (m, r) \<Rightarrow>
             (case parse_exponent r of
                None \<Rightarrow> None
              | Some e \<Rightarrow> Some (Fin (if neg then - scale10 m e else scale10 m e)))))"

subsection \<open>\<^verbatim>\<open>km_to_meters\<close>\<close>

text \<open>
  \<^verbatim>\<open>
  def km_to_meters(km: str) -> float:
      try:
          return float(km) * 1000.0
      except Exception:
          return 0.0
  \<close>
\<close>

definition km_to_meters :: "string \<Rightarrow> pyfloat" where
  "km_to_meters km =
     (case py_float km of
        Some x \<Rightarrow> fmul_const x 1000
      | None \<Rightarrow> Fin 0)"

section \<open>Regular expressions\<close>

subsection \<open>\<^verbatim>\<open>regex_safe\<close>\<close>

text \<open>
  \<^verbatim>\<open>regex_safe(s)\<close> is \<^verbatim>\<open>re.escape(s or "")\<close>: every character of the special set
  of \<^verbatim>\<open>re.escape\<close> gets a backslash in front of it.
\<close>

definition re_special :: "char \<Rightarrow> bool" where
  "re_special c =
     (c \<in> set ''()[]{}?*+-|^$.&~# '' \<or> c = CHR 0x5C \<or> (of_char c :: nat) \<in> {9, 10, 11, 12, 13})"

fun re_escape :: "string \<Rightarrow> string" where
  "re_escape [] = []"
| "re_escape (c # cs) = (if re_special c then CHR 0x5C # c # re_escape cs else c # re_escape cs)"

definition regex_safe :: "string \<Rightarrow> string" where
  "regex_safe s = re_escape s"

subsection \<open>Patterns and matching\<close>

text \<open>
  The fragment of the pattern language that is modelled: literal characters, a backslash
  followed by a non-alphanumeric character (that character, literally), the dot (any character
  but a newline) and the postfix quantifiers \<^verbatim>\<open>?\<close>, \<^verbatim>\<open>*\<close> and \<^verbatim>\<open>+\<close>. Patterns
  with groups, classes, alternation, anchors, braces or alphanumeric escapes are outside the
  fragment, and \<open>re_compile\<close> gives \<open>None\<close> for them as it does for invalid patterns.
\<close>

datatype atom = Lit char | AnyChar

datatype quant = One | Opt | Star | Plus

record pattern =
  items :: "(atom \<times> quant) list"
  ignorecase :: bool

definition re_meta :: "char \<Rightarrow> bool" where
  "re_meta c = (c \<in> set ''()[]{}?*+|^$.'' \<or> c = CHR 0x5C)"

definition take_quant :: "string \<Rightarrow> quant \<times> string" where
  "take_quant s =
     (case s of
        [] \<Rightarrow> (One, s)
      | c # cs \<Rightarrow>
          if c = CHR ''?'' then (Opt, cs)
          else if c = CHR ''*'' then (Star, cs)
          else if c = CHR ''+'' then (Plus, cs)
          else (One, s))"

definition take_atom :: "string \<Rightarrow> (atom \<times> string) option" where
  "take_atom s =
     (case s of
        [] \<Rightarrow> None
      | c # cs \<Rightarrow>
          if c = CHR 0x5C then
            (case cs of
               [] \<Rightarrow> None
             | d # ds \<Rightarrow> if is_alnum d then None else Some (Lit d, ds))
          else if c = CHR ''.'' then Some (AnyChar, cs)
          else if re_meta c then None
          else Some (Lit c, cs))"

lemma take_quant_length: "length (snd (take_quant s)) \<le> length s"
  by (simp add: take_quant_def split: list.splits)

lemma take_atom_length: "take_atom s = Some (a, r) \<Longrightarrow> length r < length s"
  by (auto simp: take_atom_def split: list.splits if_splits)

function re_parse :: "string \<Rightarrow> (atom \<times> quant) list option" where
  "re_parse s =
     (if s = [] then Some []
      else
        (case take_atom s of
           None \<Rightarrow> None
         | Some (a, r) \<Rightarrow>
             (case re_parse (snd (take_quant r)) of
                None \<Rightarrow> None
              | Some its \<Rightarrow> Some ((a, fst (take_quant r)) # its))))"
  by pat_completeness auto
termination
proof (relation "measure length")
  show "wf (measure length)" by simp
next
  fix s :: string and x2 :: "atom \<times> string" and x y
  assume "s \<noteq> []" and t: "take_atom s = Some x2" and xy: "(x, y) = x2"
  from t xy have "length y < length s"
    using take_atom_length [of s x y] by simp
  moreover have "length (snd (take_quant y)) \<le> length y"
    by (rule take_quant_length)
  ultimately show "(snd (take_quant y), s) \<in> measure length" by simp
qed

declare re_parse.simps [simp del]

definition re_compile :: "string \<Rightarrow> bool \<Rightarrow> pattern option" where
  "re_compile p ic =
     (case re_parse p of
        None \<Rightarrow> None
      | Some its \<Rightarrow> Some \<lparr>items = its, ignorecase = ic\<rparr>)"

fun atom_matches :: "bool \<Rightarrow> atom \<Rightarrow> char \<Rightarrow> bool" where
  "atom_matches ic (Lit c) d = (if ic then to_lower c = to_lower d else c = d)"
| "atom_matches ic AnyChar d = (d \<noteq> CHR 0x0A)"

fun match_here :: "bool \<Rightarrow> (atom \<times> quant) list \<Rightarrow> string \<Rightarrow> bool" where
  "match_here ic [] s = True"
| "match_here ic ((a, One) # r) [] = False"
| "match_here ic ((a, One) # r) (d # t) = (atom_matches ic a d \<and> match_here ic r t)"
| "match_here ic ((a, Opt) # r) [] = match_here ic r []"
| "match_here ic ((a, Opt) # r) (d # t) =
     ((atom_matches ic a d \<and> match_here ic r t) \<or> match_here ic r (d # t))"
| "match_here ic ((a, Star) # r) [] = match_here ic r []"
| "match_here ic ((a, Star) # r) (d # t) =
     ((atom_matches ic a d \<and> match_here ic ((a, Star) # r) t) \<or> match_here ic r (d # t))"
| "match_here ic ((a, Plus) # r) [] = False"
| "match_here ic ((a, Plus) # r) (d # t) =
     (atom_matches ic a d \<and> match_here ic ((a, Star) # r) t)"

text \<open>An unanchored search: the pattern matches at some position of the subject.\<close>

fun re_search_items :: "bool \<Rightarrow> (atom \<times> quant) list \<Rightarrow> string \<Rightarrow> bool" where
  "re_search_items ic its [] = match_here ic its []"
| "re_search_items ic its (d # t) = (match_here ic its (d # t) \<or> re_search_items ic its t)"

definition re_search :: "pattern \<Rightarrow> string \<Rightarrow> bool" where
  "re_search p s = re_search_items (ignorecase p) (items p) s"

section \<open>The document collection\<close>

text \<open>
  An \<^verbatim>\<open>ObjectId\<close> is written as 24 hexadecimal digits; \<^verbatim>\<open>ObjectId(s)\<close> raises
  \<^verbatim>\<open>InvalidId\<close> for any other string. Two spellings that differ in letter case denote the
  same identifier, so identifiers are kept in lower case.
\<close>

type_synonym oid = string

definition is_hex :: "char \<Rightarrow> bool" where
  "is_hex c = (let n = (of_char c :: nat) in
     (48 \<le> n \<and> n \<le> 57) \<or> (65 \<le> n \<and> n \<le> 70) \<or> (97 \<le> n \<and> n \<le> 102))"

definition ObjectId :: "string \<Rightarrow> oid option" where
  "ObjectId s = (if length s = 24 \<and> list_all is_hex s then Some (lower s) else None)"

record comment =
  comment_id :: oid
  comment_text :: string
  comment_author :: string
  createdAt :: nat

text \<open>
  A wine document. A field that is null or missing is \<open>None\<close>. \<open>location\<close> holds the
  coordinates \<^verbatim>\<open>[lon, lat]\<close> of a GeoJSON point, and is \<open>None\<close> when the document has no
  location of type \<^verbatim>\<open>Point\<close>. A document without a \<^verbatim>\<open>comments\<close> array has the
  empty list.
\<close>

record wine =
  wine_id :: oid
  title :: "string option"
  description :: "string option"
  winery :: "string option"
  variety :: "string option"
  country :: "string option"
  province :: "string option"
  points :: "real option"
  price :: "real option"
  location :: "(real \<times> real) option"
  country_image :: "oid option"
  comments :: "comment list"

record grid_file =
  filename :: "string option"
  content_type :: "string option"
  data :: string

text \<open>
  The database as the application sees it: the \<^verbatim>\<open>wines\<close> collection, the GridFS bucket
  \<^verbatim>\<open>flags\<close>, and whether the server answers (when it does not, every driver call raises).
  The text index and the geospatial index belong to the database engine; what they match
  is a parameter of the model.
\<close>

record db =
  wines :: "wine list"
  files :: "(oid \<times> grid_file) list"
  available :: bool
  text_index :: "string \<Rightarrow> wine \<Rightarrow> bool"
  geo_index :: "pyfloat \<times> pyfloat \<Rightarrow> pyfloat \<Rightarrow> wine \<Rightarrow> bool"

datatype error = ReError | InvalidId | NoFile | TypeError | OperationFailure | NotFound

subsection \<open>Query documents\<close>

datatype clause =
    Text string
  | FieldRegex string pattern
  | Or "clause list"
  | FieldEq string string
  | GeoWithin "pyfloat \<times> pyfloat" pyfloat

datatype query = MatchAll | And "clause list"

definition get_field :: "string \<Rightarrow> wine \<Rightarrow> string option" where
  "get_field name w =
     (if name = ''title'' then title w
      else if name = ''description'' then description w
      else if name = ''winery'' then winery w
      else if name = ''variety'' then variety w
      else if name = ''country'' then country w
      else if name = ''province'' then province w
      else None)"

fun clause_matches :: "db \<Rightarrow> clause \<Rightarrow> wine \<Rightarrow> bool" where
  "clause_matches d (Text s) w = text_index d s w"
| "clause_matches d (FieldRegex f r) w =
     (case get_field f w of None \<Rightarrow> False | Some v \<Rightarrow> re_search r v)"
| "clause_matches d (Or cs) w = list_ex (\<lambda>c. clause_matches d c w) cs"
| "clause_matches d (FieldEq f v) w = (get_field f w = Some v)"
| "clause_matches d (GeoWithin c r) w = geo_index d c r w"

fun query_matches :: "db \<Rightarrow> query \<Rightarrow> wine \<Rightarrow> bool" where
  "query_matches d MatchAll w = True"
| "query_matches d (And cs) w = list_all (\<lambda>c. clause_matches d c w) cs"

subsection \<open>Sorting\<close>

text \<open>
  A stable insertion sort under a given order. The database leaves the order of ties open;
  the model keeps them in their original order.
\<close>

fun insort_by :: "('a \<Rightarrow> 'a \<Rightarrow> bool) \<Rightarrow> 'a \<Rightarrow> 'a list \<Rightarrow> 'a list" where
  "insort_by le x [] = [x]"
| "insort_by le x (y # ys) = (if le x y then x # y # ys else y # insort_by le x ys)"

definition sort_by :: "('a \<Rightarrow> 'a \<Rightarrow> bool) \<Rightarrow> 'a list \<Rightarrow> 'a list" where
  "sort_by le xs = foldr (insort_by le) xs []"

text \<open>Null sorts before every number.\<close>

fun key_le :: "real option \<Rightarrow> real option \<Rightarrow> bool" where
  "key_le None b = True"
| "key_le (Some x) None = False"
| "key_le (Some x) (Some y) = (x \<le> y)"

definition ASCENDING :: int where "ASCENDING = 1"

definition DESCENDING :: int where "DESCENDING = - 1"

definition numeric_field :: "string \<Rightarrow> wine \<Rightarrow> real option" where
  "numeric_field name w =
     (if name = ''price'' then price w
      else if name = ''points'' then points w
      else None)"

fun cursor_sort :: "(string \<times> int) list \<Rightarrow> wine list \<Rightarrow> wine list" where
  "cursor_sort [] ws = ws"
| "cursor_sort ((f, dir) # rest) ws =
     (if dir = ASCENDING
      then sort_by (\<lambda>a b. key_le (numeric_field f a) (numeric_field f b)) (cursor_sort rest ws)
      else sort_by (\<lambda>a b. key_le (numeric_field f b) (numeric_field f a)) (cursor_sort rest ws))"

section \<open>Helpers of \<^verbatim>\<open>app.py\<close>\<close>

subsection \<open>\<^verbatim>\<open>get_filter_lists\<close>\<close>

text \<open>
  \<^verbatim>\<open>
  countries = sorted([c for c in coll.distinct("country") if c], key=str)[:max_items]
  provinces = sorted([p for p in coll.distinct("province") if p], key=str)[:max_items]
  \<close>
  \<^verbatim>\<open>distinct\<close> gives every value once, null included; the comprehension drops null and
  the empty string.
\<close>

definition distinct_values :: "(wine \<Rightarrow> string option) \<Rightarrow> wine list \<Rightarrow> string option list" where
  "distinct_values f ws = remdups (map f ws)"

definition truthy_strings :: "string option list \<Rightarrow> string list" where
  "truthy_strings vs =
     concat (map (\<lambda>v. case v of None \<Rightarrow> [] | Some s \<Rightarrow> if s = [] then [] else [s]) vs)"

definition facet_list :: "string option list \<Rightarrow> nat \<Rightarrow> string list" where
  "facet_list vs max_items = take max_items (sort (truthy_strings vs))"

definition get_filter_lists :: "db \<Rightarrow> nat \<Rightarrow> error + (string list \<times> string list)" where
  "get_filter_lists d max_items =
     (if \<not> available d then Inl OperationFailure
      else Inr (facet_list (distinct_values country (wines d)) max_items,
                facet_list (distinct_values province (wines d)) max_items))"

subsection \<open>\<^verbatim>\<open>centroid_for\<close>\<close>

definition avg :: "real list \<Rightarrow> real" where
  "avg xs = sum_list xs / real (length xs)"

definition truthy :: "string option \<Rightarrow> bool" where
  "truthy v = (case v of None \<Rightarrow> False | Some s \<Rightarrow> s \<noteq> [])"

text \<open>
  The pipeline keeps the documents of the area that have a point location and averages their
  coordinates; an empty group gives an empty result. A failure of the aggregation is caught and
  logged, and the function returns \<^verbatim>\<open>None\<close>.
\<close>

definition centroid_for :: "db \<Rightarrow> string option \<Rightarrow> string option \<Rightarrow> (pyfloat \<times> pyfloat) option" where
  "centroid_for d country_name province_name =
     (if \<not> available d then None
      else
        (let area = filter (\<lambda>w. (truthy country_name \<longrightarrow> country w = country_name)
                              \<and> (truthy province_name \<longrightarrow> province w = province_name)) (wines d);
             coords = concat (map (\<lambda>w. case location w of None \<Rightarrow> [] | Some c \<Rightarrow> [c]) area)
         in if coords = [] then None
            else Some (Fin (avg (map fst coords)), Fin (avg (map snd coords)))))"

subsection \<open>\<^verbatim>\<open>get_country_stats\<close>\<close>

text \<open>
  The stage that filters varieties is written in the source as the dict literal
  \<^verbatim>\<open>{"variety": {"$ne": None, "$ne": ""}}\<close>. A Python dict literal that repeats a key keeps
  the key once, with the value given last; \<open>py_dict\<close> builds the dict from the items of a
  literal in that way.
\<close>

datatype bson = BNull | BStr string

fun dict_set :: "'k \<Rightarrow> 'v \<Rightarrow> ('k \<times> 'v) list \<Rightarrow> ('k \<times> 'v) list" where
  "dict_set k v [] = [(k, v)]"
| "dict_set k v ((k', v') # kvs) = (if k = k' then (k, v) # kvs else (k', v') # dict_set k v kvs)"

definition py_dict :: "('k \<times> 'v) list \<Rightarrow> ('k \<times> 'v) list" where
  "py_dict its = foldl (\<lambda>d (k, v). dict_set k v d) [] its"

definition variety_condition :: "(string \<times> bson) list" where
  "variety_condition = py_dict [(''$ne'', BNull), (''$ne'', BStr [])]"

definition to_bson :: "string option \<Rightarrow> bson" where
  "to_bson v = (case v of None \<Rightarrow> BNull | Some s \<Rightarrow> BStr s)"

text \<open>A field condition holds when each of its operators holds; only \<^verbatim>\<open>$ne\<close> and \<^verbatim>\<open>$eq\<close> occur.\<close>

definition operator_holds :: "string \<times> bson \<Rightarrow> bson \<Rightarrow> bool" where
  "operator_holds oa v =
     (if fst oa = ''$ne'' then v \<noteq> snd oa
      else if fst oa = ''$eq'' then v = snd oa
      else False)"

definition condition_holds :: "(string \<times> bson) list \<Rightarrow> bson \<Rightarrow> bool" where
  "condition_holds cond v = list_all (\<lambda>oa. operator_holds oa v) cond"

record stats =
  avgPrice :: "real option"
  avgPoints :: "real option"
  topVariety :: "string option"

text \<open>\<^verbatim>\<open>$avg\<close> ignores null values and is null when there is no number.\<close>

definition avg_opt :: "real option list \<Rightarrow> real option" where
  "avg_opt vs =
     (let xs = concat (map (\<lambda>v. case v of None \<Rightarrow> [] | Some x \<Rightarrow> [x]) vs)
      in if xs = [] then None else Some (avg xs))"

text \<open>\<^verbatim>\<open>{"$group": {"_id": "$variety", "count": {"$sum": 1}}}\<close>: one document per key.\<close>

definition group_count :: "'a list \<Rightarrow> ('a \<times> nat) list" where
  "group_count ks = map (\<lambda>k. (k, count_list ks k)) (remdups ks)"

definition variety_counts :: "wine list \<Rightarrow> (string option \<times> nat) list" where
  "variety_counts ws =
     take 1
       (sort_by (\<lambda>a b. snd b \<le> snd a)
          (group_count
             (map variety
                (filter (\<lambda>w. condition_holds variety_condition (to_bson (variety w))) ws))))"

definition avg_stats :: "wine list \<Rightarrow> (real option \<times> real option) list" where
  "avg_stats ws = (if ws = [] then [] else [(avg_opt (map price ws), avg_opt (map points ws))])"

text \<open>
  \<^verbatim>\<open>{"$ifNull": [{"$arrayElemAt": [xs, 0]}, None]}\<close>: the first element, or null when the
  array is empty or the element is null.
\<close>

definition first_or_null :: "'a option list \<Rightarrow> 'a option" where
  "first_or_null xs = (case xs of [] \<Rightarrow> None | x # _ \<Rightarrow> x)"

text \<open>
  \<^verbatim>\<open>$facet\<close> gives one document whatever it receives, so \<^verbatim>\<open>results\<close> has one element.
\<close>

definition country_stats_pipeline :: "db \<Rightarrow> string \<Rightarrow> error + stats list" where
  "country_stats_pipeline d country_name =
     (if \<not> available d then Inl OperationFailure
      else
        (let matched = filter (\<lambda>w. country w = Some country_name) (wines d);
             avgStats = avg_stats matched;
             varietyCounts = variety_counts matched
         in Inr [\<lparr>avgPrice = first_or_null (map fst avgStats),
                  avgPoints = first_or_null (map snd avgStats),
                  topVariety = first_or_null (map fst varietyCounts)\<rparr>]))"

definition get_country_stats :: "db \<Rightarrow> string \<Rightarrow> stats option" where
  "get_country_stats d country_name =
     (if country_name = [] then None
      else
        (case country_stats_pipeline d country_name of
           Inl e \<Rightarrow> None
         | Inr results \<Rightarrow>
             (case results of
                r # _ \<Rightarrow> Some r
              | [] \<Rightarrow> Some \<lparr>avgPrice = None, avgPoints = None, topVariety = None\<rparr>)))"

section \<open>Routes\<close>

text \<open>
  A request carries query parameters and form fields; \<^verbatim>\<open>request.args.get(k)\<close> is the first
  value given for \<open>k\<close>, or \<^verbatim>\<open>None\<close>.
\<close>

record request =
  args :: "(string \<times> string) list"
  form :: "(string \<times> string) list"

record response =
  status :: nat
  body :: string
  mimetype :: string
  headers :: "(string \<times> string) list"

definition plain :: "string \<Rightarrow> nat \<Rightarrow> response" where
  "plain msg code = \<lparr>status = code, body = msg, mimetype = ''text/html'', headers = []\<rparr>"


subsection \<open>\<^verbatim>\<open>search\<close>: the text clause\<close>

text \<open>
  \<^verbatim>\<open>
  if q:
      if use_text:
          filters.append({"$text": {"$search": q}})
      else:
          r = re.compile(regex_safe(q), re.IGNORECASE)
          if field == "all":
              filters.append({"$or": [{"title": r}, {"description": r}, {"winery": r}, {"variety": r}]})
          elif field in ("title", "description", "variety", "winery"):
               filters.append({field: r})
  \<close>
\<close>

definition text_filters :: "string \<Rightarrow> bool \<Rightarrow> string \<Rightarrow> error + clause list" where
  "text_filters q use_text field =
     (if q \<noteq> [] then
        (if use_text then Inr [Text q]
         else
           (case re_compile (regex_safe q) True of
              None \<Rightarrow> Inl ReError
            | Some r \<Rightarrow>
                if field = ''all'' then
                  Inr [Or [FieldRegex ''title'' r, FieldRegex ''description'' r,
                           FieldRegex ''winery'' r, FieldRegex ''variety'' r]]
                else if field \<in> set [''title'', ''description'', ''variety'', ''winery''] then
                  Inr [FieldRegex field r]
                else Inr []))
      else Inr [])"

subsection \<open>\<^verbatim>\<open>search\<close>: facets\<close>

definition facet_filters :: "string \<Rightarrow> string \<Rightarrow> clause list" where
  "facet_filters country_filter province_filter =
     (if country_filter \<noteq> [] then [FieldEq ''country'' country_filter] else [])
     @ (if province_filter \<noteq> [] then [FieldEq ''province'' province_filter] else [])"

subsection \<open>\<^verbatim>\<open>search\<close>: the geospatial clause\<close>

text \<open>
  \<^verbatim>\<open>
  center_coords = None
  if geo_mode == "by_area" and max_m > 0 and (country_filter or province_filter):
      center_coords = centroid_for(db, country=country_filter or None, province=province_filter or None)
      if center_coords:
          filters.append({"location": {"$geoWithin": {"$centerSphere": [center_coords, max_m / 6378100.0]}}})
  elif geo_mode == "by_coords" and max_m > 0 and lat_str and lon_str:
      try:
          lat = float(lat_str); lon = float(lon_str)
          center_coords = [lon, lat]
          filters.append({"location": {"$geoWithin": {"$centerSphere": [center_coords, max_m / 6378100.0]}}})
      except ValueError: pass
  \<close>
\<close>

definition or_none :: "string \<Rightarrow> string option" where
  "or_none s = (if s = [] then None else Some s)"

definition geo_filters ::
  "db \<Rightarrow> string \<Rightarrow> pyfloat \<Rightarrow> string \<Rightarrow> string \<Rightarrow> string \<Rightarrow> string \<Rightarrow> clause list" where
  "geo_filters d geo_mode max_m country_filter province_filter lat_str lon_str =
     (if geo_mode = ''by_area'' \<and> fgt0 max_m \<and> (country_filter \<noteq> [] \<or> province_filter \<noteq> []) then
        (case centroid_for d (or_none country_filter) (or_none province_filter) of
           None \<Rightarrow> []
         | Some center_coords \<Rightarrow> [GeoWithin center_coords (fdiv_const max_m 6378100)])
      else if geo_mode = ''by_coords'' \<and> fgt0 max_m \<and> lat_str \<noteq> [] \<and> lon_str \<noteq> [] then
        (case py_float lat_str of
           None \<Rightarrow> []
         | Some lat \<Rightarrow>
             (case py_float lon_str of
                None \<Rightarrow> []
              | Some lon \<Rightarrow> [GeoWithin (lon, lat) (fdiv_const max_m 6378100)]))
      else [])"

subsection \<open>\<^verbatim>\<open>search\<close>: the sort order\<close>

definition sort_order :: "string \<Rightarrow> (string \<times> int) list" where
  "sort_order sort_by_key =
     (if sort_by_key = ''price_asc'' then [(''price'', ASCENDING)]
      else if sort_by_key = ''price_desc'' then [(''price'', DESCENDING)]
      else if sort_by_key = ''points_asc'' then [(''points'', ASCENDING)]
      else [(''points'', DESCENDING)])"

subsection \<open>\<^verbatim>\<open>search\<close>\<close>

definition arg :: "request \<Rightarrow> string \<Rightarrow> string option" where
  "arg req k = map_of (args req) k"

text \<open>The inputs of \<^verbatim>\<open>search\<close> as it reads them from the request.\<close>

record search_inputs =
  q :: string
  field :: string
  use_text :: bool
  country_filter :: string
  province_filter :: string
  geo_mode :: string
  lat_str :: string
  lon_str :: string
  radius_str :: string
  max_m :: pyfloat
  sort_by_key :: string

definition search_inputs :: "request \<Rightarrow> search_inputs" where
  "search_inputs req =
     (let radius = strip (or_default (arg req ''radius'') ''50'') in
      \<lparr>q = strip (or_default (arg req ''q'') []),
       field = strip (or_default (arg req ''field'') ''all''),
       use_text = (or_default (arg req ''text'') [] = ''1''),
       country_filter = strip (or_default (arg req ''country'') []),
       province_filter = strip (or_default (arg req ''province'') []),
       geo_mode = strip (or_default (arg req ''geo_mode'') ''by_area''),
       lat_str = strip (or_default (arg req ''lat'') []),
       lon_str = strip (or_default (arg req ''lon'') []),
       radius_str = radius,
       max_m = km_to_meters radius,
       sort_by_key = strip (or_default (arg req ''sort_by'') ''points_desc'')\<rparr>)"

text \<open>The filters of a request, in the order \<^verbatim>\<open>search\<close> appends them.\<close>

definition build_filters :: "db \<Rightarrow> search_inputs \<Rightarrow> error + clause list" where
  "build_filters d i =
     (case text_filters (q i) (use_text i) (field i) of
        Inl e \<Rightarrow> Inl e
      | Inr tf \<Rightarrow>
          Inr (tf
               @ facet_filters (country_filter i) (province_filter i)
               @ geo_filters d (geo_mode i) (max_m i) (country_filter i) (province_filter i)
                   (lat_str i) (lon_str i)))"

definition search_filters :: "db \<Rightarrow> request \<Rightarrow> error + clause list" where
  "search_filters d req = build_filters d (search_inputs req)"

definition make_query :: "clause list \<Rightarrow> query" where
  "make_query filters = (if filters \<noteq> [] then And filters else MatchAll)"

text \<open>
  The projection keeps title, country, province, variety, winery, points, price and
  country_image (and the identifier).
\<close>

definition project :: "wine \<Rightarrow> wine" where
  "project w = w\<lparr>description := None, location := None, comments := []\<rparr>"

definition find_docs :: "db \<Rightarrow> query \<Rightarrow> wine list" where
  "find_docs d qry = filter (query_matches d qry) (wines d)"

record search_page =
  page_inputs :: search_inputs
  results :: "wine list"
  total :: nat
  page_stats :: "stats option"
  countries :: "string list"
  provinces :: "string list"

text \<open>
  The rest of \<^verbatim>\<open>search\<close>, from the inputs: the count, the sorted and capped fetch, the
  statistics of the country and the lists for the selection controls. A driver call that raises
  ends the request with an error.
\<close>

definition run_search :: "db \<Rightarrow> search_inputs \<Rightarrow> error + search_page" where
  "run_search d i =
     (case build_filters d i of
        Inl e \<Rightarrow> Inl e
      | Inr filters \<Rightarrow>
          if \<not> available d then Inl OperationFailure
          else
            (let qry = make_query filters;
                 found = find_docs d qry;
                 country_stats =
                   (if country_filter i \<noteq> [] then get_country_stats d (country_filter i) else None)
             in case get_filter_lists d 250 of
                  Inl e \<Rightarrow> Inl e
                | Inr (cs, ps) \<Rightarrow>
                    Inr \<lparr>page_inputs = i,
                         results = take 50 (map project (cursor_sort (sort_order (sort_by_key i)) found)),
                         total = length found,
                         page_stats = country_stats,
                         countries = cs,
                         provinces = ps\<rparr>))"

definition search :: "db \<Rightarrow> request \<Rightarrow> error + search_page" where
  "search d req = run_search d (search_inputs req)"

subsection \<open>\<^verbatim>\<open>provinces_for_country\<close>\<close>

text \<open>
  \<^verbatim>\<open>
  country = (request.args.get("country") or "").strip()
  query = {"country": country} if country else {}
  provinces = sorted([p for p in coll.distinct("province", query) if p], key=str)[:300]
  \<close>
\<close>

definition provinces_for_country :: "db \<Rightarrow> request \<Rightarrow> error + string list" where
  "provinces_for_country d req =
     (let country_name = strip (or_default (arg req ''country'') []);
          qry = (if country_name \<noteq> [] then And [FieldEq ''country'' country_name] else MatchAll)
      in if \<not> available d then Inl OperationFailure
         else Inr (facet_list (distinct_values province (find_docs d qry)) 300))"

subsection \<open>\<^verbatim>\<open>get_image\<close>\<close>

text \<open>
  \<^verbatim>\<open>fs.get\<close> raises \<^verbatim>\<open>NoFile\<close> for an unknown identifier. A stored file always has the
  attributes \<^verbatim>\<open>filename\<close> and \<^verbatim>\<open>content_type\<close>, each possibly \<^verbatim>\<open>None\<close>; the test
  \<^verbatim>\<open>'.' in filename\<close> raises \<^verbatim>\<open>TypeError\<close> on \<^verbatim>\<open>None\<close>.
\<close>

definition fs_get :: "db \<Rightarrow> oid \<Rightarrow> error + grid_file" where
  "fs_get d file_id =
     (if \<not> available d then Inl OperationFailure
      else (case map_of (files d) file_id of None \<Rightarrow> Inl NoFile | Some f \<Rightarrow> Inr f))"

definition extension :: "string \<Rightarrow> string" where
  "extension name = lower (rev (takeWhile (\<lambda>c. c \<noteq> CHR ''.'') (rev name)))"

definition guess_mimetype :: "grid_file \<Rightarrow> error + string" where
  "guess_mimetype f =
     (let declared = or_default (content_type f) [] in
      if declared = [] then
        (case filename f of
           None \<Rightarrow> Inl TypeError
         | Some name \<Rightarrow>
             Inr (or_default
                   (if CHR ''.'' \<in> set name then
                      (let ext = extension name in
                       if ext = ''png'' then Some ''image/png''
                       else if ext \<in> set [''jpg'', ''jpeg''] then Some ''image/jpeg''
                       else if ext = ''gif'' then Some ''image/gif''
                       else None)
                    else None)
                   ''application/octet-stream''))
      else Inr declared)"

text \<open>
  \<^verbatim>\<open>app.send_static_file("default.png")\<close> serves the file of the static folder, or raises
  \<^verbatim>\<open>NotFound\<close> when there is none; \<open>default_png\<close> is the content of that file, if present.
\<close>

definition send_default :: "string option \<Rightarrow> response" where
  "send_default default_png =
     (case default_png of
        Some bytes \<Rightarrow> \<lparr>status = 200, body = bytes, mimetype = ''image/png'', headers = []\<rparr>
      | None \<Rightarrow> plain ''Image not found'' 404)"

definition get_image :: "db \<Rightarrow> string option \<Rightarrow> string \<Rightarrow> response" where
  "get_image d default_png ident =
     (case ObjectId ident of
        None \<Rightarrow> send_default default_png
      | Some file_id \<Rightarrow>
          (case fs_get d file_id of
             Inl e \<Rightarrow> send_default default_png
           | Inr f \<Rightarrow>
               (case guess_mimetype f of
                  Inl e \<Rightarrow> send_default default_png
                | Inr mt \<Rightarrow>
                    \<lparr>status = 200, body = data f, mimetype = mt,
                     headers = [(''Cache-Control'', ''public, max-age=604800'')]\<rparr>)))"

subsection \<open>\<^verbatim>\<open>add_comment\<close>\<close>



section \<open>Properties\<close>

subsection \<open>Vocabulary of the properties\<close>


fun is_text_clause :: "clause \<Rightarrow> bool" where
  "is_text_clause (Text s) = True"
| "is_text_clause (FieldRegex f r) = True"
| "is_text_clause (Or cs) = True"
| "is_text_clause (FieldEq f v) = False"
| "is_text_clause (GeoWithin c r) = False"

fun is_geo_clause :: "clause \<Rightarrow> bool" where
  "is_geo_clause (GeoWithin c r) = True"
| "is_geo_clause (Text s) = False"
| "is_geo_clause (FieldRegex f r) = False"
| "is_geo_clause (Or cs) = False"
| "is_geo_clause (FieldEq f v) = False"

text \<open>The pattern of a query in which every character stands for itself.\<close>

definition literal_items :: "string \<Rightarrow> (atom \<times> quant) list" where
  "literal_items s = map (\<lambda>c. (Lit c, One)) s"

subsection \<open>Sample data\<close>

definition blank_wine :: wine where
  "blank_wine =
     \<lparr>wine_id = ''000000000000000000000000'', title = None, description = None, winery = None,
      variety = None, country = None, province = None, points = None, price = None,
      location = None, country_image = None, comments = []\<rparr>"

definition sample_db :: "wine list \<Rightarrow> db" where
  "sample_db ws =
     \<lparr>wines = ws, files = [], available = True,
      text_index = (\<lambda>s w. False), geo_index = (\<lambda>c r w. False)\<rparr>"

definition get_request :: "(string \<times> string) list \<Rightarrow> request" where
  "get_request params = \<lparr>args = params, form = []\<rparr>"


subsection \<open>Escaped patterns are literal\<close>

lemma re_special_not_alnum: "re_special c \<Longrightarrow> \<not> is_alnum c"
  by (auto simp: re_special_def is_alnum_def Let_def)

lemma re_meta_special: "re_meta c \<Longrightarrow> re_special c"
  by (auto simp: re_meta_def re_special_def)

lemma take_quant_escape: "take_quant (re_escape cs) = (One, re_escape cs)"
  by (cases cs) (auto simp: take_quant_def re_special_def)

lemma take_atom_escape: "take_atom (re_escape (c # cs)) = Some (Lit c, re_escape cs)"
  using re_special_not_alnum [of c] re_meta_special [of c]
  by (auto simp: take_atom_def re_special_def)

lemma re_parse_escape: "re_parse (re_escape s) = Some (literal_items s)"
proof (induction s)
  case Nil
  show ?case by (subst re_parse.simps) (simp add: literal_items_def)
next
  case (Cons c cs)
  have ne: "re_escape (c # cs) \<noteq> []" by simp
  show ?case
    by (subst re_parse.simps)
      (simp add: ne take_atom_escape take_quant_escape Cons.IH literal_items_def
        del: re_escape.simps)
qed

lemma re_compile_safe:
  "re_compile (regex_safe s) ic = Some \<lparr>items = literal_items s, ignorecase = ic\<rparr>"
  by (simp add: re_compile_def regex_safe_def re_parse_escape)




lemma text_filters_never_fail: "\<exists>tf. text_filters qs ut f = Inr tf"
  by (simp add: text_filters_def re_compile_safe)


subsection \<open>The text clause of a search\<close>



subsection \<open>The shape of the filter list\<close>

lemma build_filters_shape:
  "\<exists>tf. text_filters (q i) (use_text i) (field i) = Inr tf
      \<and> build_filters d i =
          Inr (tf @ facet_filters (country_filter i) (province_filter i)
                  @ geo_filters d (geo_mode i) (max_m i) (country_filter i) (province_filter i)
                      (lat_str i) (lon_str i))"
proof -
  obtain tf where "text_filters (q i) (use_text i) (field i) = Inr tf"
    using text_filters_never_fail by blast
  then show ?thesis by (simp add: build_filters_def)
qed

lemma run_search_ok: "available d \<Longrightarrow> \<exists>p. run_search d i = Inr p"
proof -
  assume a: "available d"
  obtain fs where "build_filters d i = Inr fs"
    using build_filters_shape [of i d] by blast
  with a show ?thesis
    by (simp add: run_search_def get_filter_lists_def Let_def)
qed


lemma facet_filters_plain:
  "\<not> list_ex is_geo_clause (facet_filters c p)" "\<not> list_ex is_text_clause (facet_filters c p)"
  by (simp_all add: facet_filters_def)

lemma geo_filters_no_text: "\<not> list_ex is_text_clause (geo_filters d g m c p la lo)"
  by (simp add: geo_filters_def split: option.splits)




subsection \<open>Unknown field selectors\<close>

text \<open>
  Claim C7. When the query text is not empty, text mode is off and the field selector is none of
  \<^verbatim>\<open>all\<close>, \<^verbatim>\<open>title\<close>, \<^verbatim>\<open>description\<close>, \<^verbatim>\<open>variety\<close>, \<^verbatim>\<open>winery\<close>, the search adds
  no text clause: the filter list holds the facet and geospatial clauses only. Building the
  filters does not fail, and the search answers whenever the database does.
\<close>

theorem search_unknown_field_drops_text:
  assumes "q (search_inputs req) \<noteq> []"
    and "\<not> use_text (search_inputs req)"
    and "field (search_inputs req) \<notin> set [''all'', ''title'', ''description'', ''variety'', ''winery'']"
  shows "text_filters (q (search_inputs req)) (use_text (search_inputs req)) (field (search_inputs req)) = Inr []
         \<and> (\<exists>fs. search_filters d req = Inr fs \<and> \<not> list_ex is_text_clause fs)
         \<and> (available d \<longrightarrow> (\<exists>p. search d req = Inr p))"
proof -
  let ?i = "search_inputs req"
  have tf: "text_filters (q ?i) (use_text ?i) (field ?i) = Inr []"
    using assms by (simp add: text_filters_def re_compile_safe)
  have "search_filters d req =
          Inr (facet_filters (country_filter ?i) (province_filter ?i)
               @ geo_filters d (geo_mode ?i) (max_m ?i) (country_filter ?i) (province_filter ?i)
                   (lat_str ?i) (lon_str ?i))"
    by (simp add: search_filters_def build_filters_def tf)
  moreover have "\<not> list_ex is_text_clause
          (facet_filters (country_filter ?i) (province_filter ?i)
               @ geo_filters d (geo_mode ?i) (max_m ?i) (country_filter ?i) (province_filter ?i)
                   (lat_str ?i) (lon_str ?i))"
    by (simp add: facet_filters_plain geo_filters_no_text)
  moreover have "available d \<longrightarrow> (\<exists>p. search d req = Inr p)"
    using run_search_ok [of d ?i] by (simp add: search_def)
  ultimately show ?thesis using tf by blast
qed

theorem search_unknown_field_drops_text_witness:
  "q (search_inputs (get_request [(''q'', ''merlot''), (''field'', ''taster''), (''country'', ''Italy'')])) \<noteq> []
   \<and> \<not> use_text (search_inputs (get_request [(''q'', ''merlot''), (''field'', ''taster''), (''country'', ''Italy'')]))
   \<and> field (search_inputs (get_request [(''q'', ''merlot''), (''field'', ''taster''), (''country'', ''Italy'')]))
        \<notin> set [''all'', ''title'', ''description'', ''variety'', ''winery'']
   \<and> available (sample_db [blank_wine])
   \<and> search_filters (sample_db [blank_wine])
        (get_request [(''q'', ''merlot''), (''field'', ''taster''), (''country'', ''Italy'')])
       = Inr [FieldEq ''country'' ''Italy'']
   \<and> (\<exists>p. search (sample_db [blank_wine])
        (get_request [(''q'', ''merlot''), (''field'', ''taster''), (''country'', ''Italy'')]) = Inr p)"
proof -
  let ?req = "get_request [(''q'', ''merlot''), (''field'', ''taster''), (''country'', ''Italy'')]"
  have h1: "q (search_inputs ?req) \<noteq> []" by code_simp
  have h2: "\<not> use_text (search_inputs ?req)" by code_simp
  have h3: "field (search_inputs ?req) \<notin> set [''all'', ''title'', ''description'', ''variety'', ''winery'']"
    by code_simp
  have a: "available (sample_db [blank_wine])" by (simp add: sample_db_def)
  have f: "search_filters (sample_db [blank_wine]) ?req = Inr [FieldEq ''country'' ''Italy'']"
    by code_simp
  from search_unknown_field_drops_text [OF h1 h2 h3, of "sample_db [blank_wine]"] a
  have "\<exists>p. search (sample_db [blank_wine]) ?req = Inr p" by blast
  with h1 h2 h3 a f show ?thesis by blast
qed

subsection \<open>The sort key\<close>

lemma build_filters_sort_key: "build_filters d (i\<lparr>sort_by_key := k\<rparr>) = build_filters d i"
  by (simp add: build_filters_def cong: sum.case_cong)

lemma run_search_sort_order:
  assumes "sort_order (sort_by_key i) = sort_order k"
  shows "map_sum id results (run_search d i) = map_sum id results (run_search d (i\<lparr>sort_by_key := k\<rparr>))
     \<and> map_sum id total (run_search d i) = map_sum id total (run_search d (i\<lparr>sort_by_key := k\<rparr>))"
proof (cases "build_filters d i")
  case (Inl e)
  then show ?thesis
    by (simp add: run_search_def build_filters_sort_key)
next
  case (Inr fs)
  show ?thesis
  proof (cases "available d")
    case True
    with Inr assms show ?thesis
      by (simp add: run_search_def build_filters_sort_key get_filter_lists_def Let_def)
  next
    case False
    with Inr show ?thesis
      by (simp add: run_search_def build_filters_sort_key)
  qed
qed

text \<open>
  Claim C5. The sort key of a request is its trimmed \<^verbatim>\<open>sort_by\<close> parameter, and
  \<^verbatim>\<open>points_desc\<close> when the parameter is omitted. The key \<^verbatim>\<open>price_asc\<close> sorts by price
  ascending, \<^verbatim>\<open>price_desc\<close> by price descending, \<^verbatim>\<open>points_asc\<close> by points ascending, and
  every other key by points descending. So a request with an unrecognized or omitted key gets
  the results and the total of the request that differs from it only in having the key
  \<^verbatim>\<open>points_desc\<close>.
\<close>

theorem search_sort_key_mapping:
  "(sort_by_key (search_inputs req) = ''price_asc'' \<longrightarrow>
      sort_order (sort_by_key (search_inputs req)) = [(''price'', ASCENDING)])
   \<and> (sort_by_key (search_inputs req) = ''price_desc'' \<longrightarrow>
      sort_order (sort_by_key (search_inputs req)) = [(''price'', DESCENDING)])
   \<and> (sort_by_key (search_inputs req) = ''points_asc'' \<longrightarrow>
      sort_order (sort_by_key (search_inputs req)) = [(''points'', ASCENDING)])
   \<and> (sort_by_key (search_inputs req) \<notin> set [''price_asc'', ''price_desc'', ''points_asc''] \<longrightarrow>
      sort_order (sort_by_key (search_inputs req)) = [(''points'', DESCENDING)]
      \<and> (\<forall>req'. search_inputs req' = (search_inputs req)\<lparr>sort_by_key := ''points_desc''\<rparr> \<longrightarrow>
            map_sum id results (search d req) = map_sum id results (search d req')
            \<and> map_sum id total (search d req) = map_sum id total (search d req')))
   \<and> (arg req ''sort_by'' = None \<longrightarrow> sort_by_key (search_inputs req) = ''points_desc'')
   \<and> sort_order ''bogus'' = sort_order ''points_desc''"
proof -
  let ?k = "sort_by_key (search_inputs req)"
  have c1: "?k = ''price_asc'' \<longrightarrow> sort_order ?k = [(''price'', ASCENDING)]"
    by (simp add: sort_order_def)
  have c2: "?k = ''price_desc'' \<longrightarrow> sort_order ?k = [(''price'', DESCENDING)]"
    by (simp add: sort_order_def)
  have c3: "?k = ''points_asc'' \<longrightarrow> sort_order ?k = [(''points'', ASCENDING)]"
    by (simp add: sort_order_def)
  have pd: "sort_order ''points_desc'' = [(''points'', DESCENDING)]"
    by (simp add: sort_order_def)
  have other: "sort_order ?k = [(''points'', DESCENDING)]"
    if "?k \<notin> set [''price_asc'', ''price_desc'', ''points_asc'']"
  proof -
    from that have "?k \<noteq> ''price_asc''" "?k \<noteq> ''price_desc''" "?k \<noteq> ''points_asc''"
      by simp_all
    then show ?thesis unfolding sort_order_def by (simp only: if_False)
  qed
  have same: "map_sum id results (search d req) = map_sum id results (search d req')
      \<and> map_sum id total (search d req) = map_sum id total (search d req')"
    if k: "?k \<notin> set [''price_asc'', ''price_desc'', ''points_asc'']"
      and r: "search_inputs req' = (search_inputs req)\<lparr>sort_by_key := ''points_desc''\<rparr>" for req'
  proof -
    have "sort_order ?k = sort_order ''points_desc''"
      using other [OF k] pd by simp
    from run_search_sort_order [OF this, of d] show ?thesis
      unfolding search_def r .
  qed
  have c4: "?k \<notin> set [''price_asc'', ''price_desc'', ''points_asc''] \<longrightarrow>
      sort_order ?k = [(''points'', DESCENDING)]
      \<and> (\<forall>req'. search_inputs req' = (search_inputs req)\<lparr>sort_by_key := ''points_desc''\<rparr> \<longrightarrow>
            map_sum id results (search d req) = map_sum id results (search d req')
            \<and> map_sum id total (search d req) = map_sum id total (search d req'))"
    using other same by blast
  have sp: "strip ''points_desc'' = ''points_desc''" by code_simp
  have c5: "arg req ''sort_by'' = None \<longrightarrow> ?k = ''points_desc''"
    by (simp add: search_inputs_def or_default_def Let_def sp)
  have c6: "sort_order ''bogus'' = sort_order ''points_desc''"
    unfolding pd by (simp add: sort_order_def)
  from c1 c2 c3 c4 c5 c6 show ?thesis by (intro conjI)
qed

theorem search_sort_key_mapping_witness:
  "sort_by_key (search_inputs (get_request [(''sort_by'', ''bogus'')]))
      \<notin> set [''price_asc'', ''price_desc'', ''points_asc'']
   \<and> search_inputs (get_request [(''sort_by'', ''points_desc'')])
       = (search_inputs (get_request [(''sort_by'', ''bogus'')]))\<lparr>sort_by_key := ''points_desc''\<rparr>
   \<and> arg (get_request []) ''sort_by'' = None
   \<and> sort_order (sort_by_key (search_inputs (get_request [(''sort_by'', ''bogus'')])))
       = [(''points'', DESCENDING)]
   \<and> map_sum id results
        (search (sample_db [blank_wine\<lparr>points := Some 88\<rparr>, blank_wine\<lparr>points := Some 95\<rparr>])
           (get_request [(''sort_by'', ''bogus'')]))
       = map_sum id results
        (search (sample_db [blank_wine\<lparr>points := Some 88\<rparr>, blank_wine\<lparr>points := Some 95\<rparr>])
           (get_request [(''sort_by'', ''points_desc'')]))
   \<and> sort_by_key (search_inputs (get_request [])) = ''points_desc''
   \<and> sort_by_key (search_inputs (get_request [(''sort_by'', ''price_asc'')])) = ''price_asc''
   \<and> sort_order (sort_by_key (search_inputs (get_request [(''sort_by'', ''price_asc'')])))
       = [(''price'', ASCENDING)]"
proof -
  let ?bogus = "get_request [(''sort_by'', ''bogus'')]"
  let ?desc = "get_request [(''sort_by'', ''points_desc'')]"
  let ?asc = "get_request [(''sort_by'', ''price_asc'')]"
  let ?d = "sample_db [blank_wine\<lparr>points := Some 88\<rparr>, blank_wine\<lparr>points := Some 95\<rparr>]"
  have h1: "sort_by_key (search_inputs ?bogus) \<notin> set [''price_asc'', ''price_desc'', ''points_asc'']"
    by code_simp
  have h2: "search_inputs ?desc = (search_inputs ?bogus)\<lparr>sort_by_key := ''points_desc''\<rparr>"
    by code_simp
  have h3: "arg (get_request []) ''sort_by'' = None"
    by code_simp
  have h4: "sort_by_key (search_inputs ?asc) = ''price_asc''"
    by code_simp
  from search_sort_key_mapping [of ?bogus ?d] h1 h2
  have a: "sort_order (sort_by_key (search_inputs ?bogus)) = [(''points'', DESCENDING)]"
    and b: "map_sum id results (search ?d ?bogus) = map_sum id results (search ?d ?desc)"
    by blast+
  from search_sort_key_mapping [of "get_request []" ?d] h3
  have c: "sort_by_key (search_inputs (get_request [])) = ''points_desc''"
    by blast
  from search_sort_key_mapping [of ?asc ?d] h4
  have e: "sort_order (sort_by_key (search_inputs ?asc)) = [(''price'', ASCENDING)]"
    by blast
  from h1 h2 h3 h4 a b c e show ?thesis by blast
qed

subsection \<open>Explicit coordinates\<close>



subsection \<open>The radius\<close>








text \<open>
  Claim C10, as the code has it. The claim as stated fails for a blank radius that is not
  empty: a radius of two spaces is kept by \<^verbatim>\<open>or "50"\<close>, trimmed to the empty string and
  converted to zero, so a request for the area of a country that has a centroid gets no
  geospatial clause.
\<close>

theorem radius_blank_counterexample:
  "arg (get_request [(''country'', ''Italy''), (''radius'', ''  '')]) ''radius'' = Some ''  ''
   \<and> strip ''  '' = []
   \<and> geo_mode (search_inputs (get_request [(''country'', ''Italy''), (''radius'', ''  '')])) = ''by_area''
   \<and> centroid_for
        (sample_db [blank_wine\<lparr>country := Some ''Italy'', location := Some (12, 42)\<rparr>])
        (Some ''Italy'') None = Some (Fin 12, Fin 42)
   \<and> max_m (search_inputs (get_request [(''country'', ''Italy''), (''radius'', ''  '')])) = Fin 0
   \<and> search_filters
        (sample_db [blank_wine\<lparr>country := Some ''Italy'', location := Some (12, 42)\<rparr>])
        (get_request [(''country'', ''Italy''), (''radius'', ''  '')])
       = Inr [FieldEq ''country'' ''Italy'']"
  by code_simp

text \<open>
  Claim C10, amended. When the radius parameter is absent or the empty string, the radius of
  the request is 50 kilometers, that is 50000 meters; then in the mode \<^verbatim>\<open>by_area\<close>, with a
  country or a province set and a centroid for the area, the last filter is the geospatial
  clause around the centroid with the radius 50000 / 6378100.
\<close>

theorem radius_default:
  assumes "arg req ''radius'' = None \<or> arg req ''radius'' = Some []"
  shows "radius_str (search_inputs req) = ''50''
     \<and> max_m (search_inputs req) = Fin 50000
     \<and> (\<forall>c. geo_mode (search_inputs req) = ''by_area''
            \<and> (country_filter (search_inputs req) \<noteq> [] \<or> province_filter (search_inputs req) \<noteq> [])
            \<and> centroid_for d (or_none (country_filter (search_inputs req)))
                 (or_none (province_filter (search_inputs req))) = Some c \<longrightarrow>
          (\<exists>tf. text_filters (q (search_inputs req)) (use_text (search_inputs req)) (field (search_inputs req)) = Inr tf
             \<and> search_filters d req =
                 Inr (tf @ facet_filters (country_filter (search_inputs req)) (province_filter (search_inputs req))
                        @ [GeoWithin c (Fin (50000 / 6378100))])))"
proof -
  let ?i = "search_inputs req"
  have od: "or_default (arg req ''radius'') ''50'' = ''50''"
    using assms by (auto simp: or_default_def)
  have s50: "strip ''50'' = ''50''" by code_simp
  have k50: "km_to_meters ''50'' = Fin 50000" by code_simp
  have r: "radius_str ?i = ''50''"
    by (simp add: search_inputs_def Let_def od s50)
  have m: "max_m ?i = Fin 50000"
    by (simp add: search_inputs_def Let_def od s50 k50)
  obtain tf where tf: "text_filters (q ?i) (use_text ?i) (field ?i) = Inr tf"
    and bf: "search_filters d req =
          Inr (tf @ facet_filters (country_filter ?i) (province_filter ?i)
                  @ geo_filters d (geo_mode ?i) (max_m ?i) (country_filter ?i) (province_filter ?i)
                      (lat_str ?i) (lon_str ?i))"
    using build_filters_shape [of ?i d] unfolding search_filters_def by blast
  have g: "geo_filters d (geo_mode ?i) (max_m ?i) (country_filter ?i) (province_filter ?i)
              (lat_str ?i) (lon_str ?i) = [GeoWithin c (Fin (50000 / 6378100))]"
    if "geo_mode ?i = ''by_area''"
      and "country_filter ?i \<noteq> [] \<or> province_filter ?i \<noteq> []"
      and "centroid_for d (or_none (country_filter ?i)) (or_none (province_filter ?i)) = Some c"
    for c
    using that unfolding m by (simp add: geo_filters_def)
  from r m tf bf g show ?thesis by auto
qed

theorem radius_default_witness:
  "(arg (get_request [(''country'', ''Italy'')]) ''radius'' = None
      \<or> arg (get_request [(''country'', ''Italy'')]) ''radius'' = Some [])
   \<and> max_m (search_inputs (get_request [(''country'', ''Italy'')])) = Fin 50000
   \<and> geo_mode (search_inputs (get_request [(''country'', ''Italy'')])) = ''by_area''
   \<and> country_filter (search_inputs (get_request [(''country'', ''Italy'')])) = ''Italy''
   \<and> centroid_for
        (sample_db [blank_wine\<lparr>country := Some ''Italy'', location := Some (12, 42)\<rparr>])
        (or_none ''Italy'') (or_none []) = Some (Fin 12, Fin 42)
   \<and> search_filters
        (sample_db [blank_wine\<lparr>country := Some ''Italy'', location := Some (12, 42)\<rparr>])
        (get_request [(''country'', ''Italy'')])
       = Inr [FieldEq ''country'' ''Italy'', GeoWithin (Fin 12, Fin 42) (Fin (50000 / 6378100))]"
proof -
  let ?req = "get_request [(''country'', ''Italy'')]"
  let ?d = "sample_db [blank_wine\<lparr>country := Some ''Italy'', location := Some (12, 42)\<rparr>]"
  have h: "arg ?req ''radius'' = None \<or> arg ?req ''radius'' = Some []" by code_simp
  have g: "geo_mode (search_inputs ?req) = ''by_area''" by code_simp
  have cf: "country_filter (search_inputs ?req) = ''Italy''" by code_simp
  have pf: "province_filter (search_inputs ?req) = []" by code_simp
  have ce: "centroid_for ?d (or_none ''Italy'') (or_none []) = Some (Fin 12, Fin 42)" by code_simp
  have t: "text_filters (q (search_inputs ?req)) (use_text (search_inputs ?req)) (field (search_inputs ?req)) = Inr []"
    by code_simp
  have f: "facet_filters ''Italy'' [] = [FieldEq ''country'' ''Italy'']" by code_simp
  from radius_default [OF h, of ?d]
  have m: "max_m (search_inputs ?req) = Fin 50000"
    and s: "search_filters ?d ?req
       = Inr [FieldEq ''country'' ''Italy'', GeoWithin (Fin 12, Fin 42) (Fin (50000 / 6378100))]"
    using g ce unfolding cf pf t f by auto
  from h m g cf ce s show ?thesis by blast
qed

subsection \<open>The most frequent variety of a country\<close>

text \<open>
  Claim C2. The claim is what the source sets out to do and the code does not do it: the
  condition of the variety stage repeats the key \<^verbatim>\<open>$ne\<close>, so the dict that reaches the
  database excludes the empty string only. Records with a null variety are grouped under the
  key null; with two such records and one Merlot in Italy, the largest group is null and
  \<^verbatim>\<open>topVariety\<close> is null rather than Merlot.
\<close>

theorem top_variety_counts_null:
  "variety_condition = [(''$ne'', BStr [])]
   \<and> variety_counts
        [blank_wine\<lparr>country := Some ''Italy''\<rparr>,
         blank_wine\<lparr>country := Some ''Italy''\<rparr>,
         blank_wine\<lparr>country := Some ''Italy'', variety := Some ''Merlot''\<rparr>] = [(None, 2)]
   \<and> get_country_stats
        (sample_db
          [blank_wine\<lparr>country := Some ''Italy''\<rparr>,
           blank_wine\<lparr>country := Some ''Italy''\<rparr>,
           blank_wine\<lparr>country := Some ''Italy'', variety := Some ''Merlot''\<rparr>])
        ''Italy''
       = Some \<lparr>avgPrice = None, avgPoints = None, topVariety = None\<rparr>"
  by code_simp

subsection \<open>Images\<close>

lemma status_send_default:
  "status (send_default default_png) = (case default_png of None \<Rightarrow> 404 | Some b \<Rightarrow> 200)"
  by (simp add: send_default_def plain_def split: option.splits)

lemma status_get_image:
  "status (get_image d default_png ident) = 200
   \<or> get_image d default_png ident = send_default default_png"
  by (simp add: get_image_def split: option.splits sum.splits)

text \<open>
  Claim C9. When the identifier is not an \<^verbatim>\<open>ObjectId\<close>, or the lookup of the file fails, the
  answer is the default image of the static folder; when that file is missing too the answer
  is 404. No request for an image is answered with 500, and 404 is answered only when the
  default image is missing.
\<close>

theorem get_image_falls_back:
  "(ObjectId ident = None \<or> (\<exists>i e. ObjectId ident = Some i \<and> fs_get d i = Inl e) \<longrightarrow>
      get_image d default_png ident = send_default default_png)
   \<and> (\<forall>bytes. default_png = Some bytes \<longrightarrow>
         send_default default_png = \<lparr>status = 200, body = bytes, mimetype = ''image/png'', headers = []\<rparr>)
   \<and> (default_png = None \<longrightarrow> status (send_default default_png) = 404)
   \<and> status (get_image d default_png ident) \<noteq> 500
   \<and> (status (get_image d default_png ident) = 404 \<longrightarrow> default_png = None)"
proof -
  have c1: "ObjectId ident = None \<or> (\<exists>i e. ObjectId ident = Some i \<and> fs_get d i = Inl e) \<longrightarrow>
      get_image d default_png ident = send_default default_png"
    by (auto simp: get_image_def)
  have c2: "\<forall>bytes. default_png = Some bytes \<longrightarrow>
         send_default default_png = \<lparr>status = 200, body = bytes, mimetype = ''image/png'', headers = []\<rparr>"
    by (simp add: send_default_def)
  have c3: "default_png = None \<longrightarrow> status (send_default default_png) = 404"
    by (simp add: status_send_default)
  have c4: "status (get_image d default_png ident) \<noteq> 500"
    using status_get_image [of d default_png ident]
    by (auto simp: status_send_default split: option.splits)
  have c5: "status (get_image d default_png ident) = 404 \<longrightarrow> default_png = None"
    using status_get_image [of d default_png ident]
    by (auto simp: status_send_default split: option.splits)
  from c1 c2 c3 c4 c5 show ?thesis by (intro conjI)
qed

theorem get_image_falls_back_witness:
  "ObjectId ''flag-of-italy'' = None
   \<and> get_image (sample_db []) (Some ''PNG'') ''flag-of-italy''
       = \<lparr>status = 200, body = ''PNG'', mimetype = ''image/png'', headers = []\<rparr>
   \<and> ObjectId ''0123456789abcdef01234567'' = Some ''0123456789abcdef01234567''
   \<and> fs_get (sample_db []) ''0123456789abcdef01234567'' = Inl NoFile
   \<and> get_image (sample_db []) (Some ''PNG'') ''0123456789abcdef01234567''
       = \<lparr>status = 200, body = ''PNG'', mimetype = ''image/png'', headers = []\<rparr>
   \<and> status (get_image (sample_db []) None ''0123456789abcdef01234567'') = 404"
proof -
  let ?d = "sample_db []"
  let ?id = "''0123456789abcdef01234567''"
  have h1: "ObjectId ''flag-of-italy'' = None" by code_simp
  have h2: "ObjectId ?id = Some ?id" by code_simp
  have h3: "fs_get ?d ?id = Inl NoFile" by code_simp
  from get_image_falls_back [of "''flag-of-italy''" ?d "Some ''PNG''"] h1
  have a: "get_image ?d (Some ''PNG'') ''flag-of-italy''
       = \<lparr>status = 200, body = ''PNG'', mimetype = ''image/png'', headers = []\<rparr>"
    by simp
  from get_image_falls_back [of ?id ?d "Some ''PNG''"] h2 h3
  have b: "get_image ?d (Some ''PNG'') ?id
       = \<lparr>status = 200, body = ''PNG'', mimetype = ''image/png'', headers = []\<rparr>"
    by simp
  from get_image_falls_back [of ?id ?d None] h2 h3
  have c: "status (get_image ?d None ?id) = 404"
    by simp
  from h1 h2 h3 a b c show ?thesis by (intro conjI)
qed

subsection \<open>Comments\<close>






subsection \<open>Facet lists\<close>

lemma set_truthy_strings: "set (truthy_strings vs) = {s. s \<noteq> [] \<and> Some s \<in> set vs}"
  by (induction vs) (auto simp: truthy_strings_def split: option.splits if_splits)

lemma distinct_truthy_strings: "distinct vs \<Longrightarrow> distinct (truthy_strings vs)"
proof (induction vs)
  case Nil
  show ?case by (simp add: truthy_strings_def)
next
  case (Cons v vs)
  have step: "truthy_strings (v # vs)
      = (case v of None \<Rightarrow> [] | Some s \<Rightarrow> if s = [] then [] else [s]) @ truthy_strings vs"
    by (simp add: truthy_strings_def)
  from Cons show ?case
    unfolding step by (auto simp: set_truthy_strings split: option.splits)
qed

lemma facet_list_distinct_values:
  "facet_list (distinct_values f ws) n
     = take n (sorted_list_of_set {s. s \<noteq> [] \<and> Some s \<in> f ` set ws})"
proof -
  let ?xs = "truthy_strings (remdups (map f ws))"
  have d: "distinct ?xs" by (simp add: distinct_truthy_strings)
  have s: "set ?xs = {s. s \<noteq> [] \<and> Some s \<in> f ` set ws}"
    by (simp add: set_truthy_strings)
  have "sort ?xs = sort (remdups ?xs)"
    using d by (simp add: distinct_remdups_id)
  also have "\<dots> = sorted_list_of_set (set ?xs)"
    by (simp add: sorted_list_of_set_sort_remdups)
  finally show ?thesis
    by (simp add: facet_list_def distinct_values_def s)
qed

lemma facet_list_shape:
  "sorted (facet_list (distinct_values f ws) n)
   \<and> distinct (facet_list (distinct_values f ws) n)
   \<and> [] \<notin> set (facet_list (distinct_values f ws) n)
   \<and> length (facet_list (distinct_values f ws) n) \<le> n"
proof -
  let ?xs = "truthy_strings (distinct_values f ws)"
  have "sorted (take n (sort ?xs))"
    by (simp add: sorted_wrt_take)
  moreover have "distinct (take n (sort ?xs))"
    by (simp add: distinct_truthy_strings distinct_values_def)
  moreover have "[] \<notin> set (take n (sort ?xs))"
  proof
    assume "[] \<in> set (take n (sort ?xs))"
    then have "[] \<in> set (sort ?xs)" by (rule in_set_takeD)
    then show False by (simp add: set_truthy_strings)
  qed
  ultimately show ?thesis by (simp add: facet_list_def)
qed

lemma query_matches_country:
  "query_matches d (And [FieldEq ''country'' cn]) w = (country w = Some cn)"
  by (simp add: get_field_def)

lemma find_docs_country:
  "find_docs d (And [FieldEq ''country'' cn]) = filter (\<lambda>w. country w = Some cn) (wines d)"
  unfolding find_docs_def by (rule filter_cong) (simp_all only: query_matches_country)

lemma find_docs_all: "find_docs d MatchAll = wines d"
  by (simp add: find_docs_def)

text \<open>
  Claim C8. When the database answers, the lists for the selection controls are the distinct
  non-empty countries and the distinct non-empty provinces of the whole collection, sorted, cut
  to the first 250; they are the lists of the search page. The provinces of a country are the
  distinct non-empty provinces of the records of that country (of all records when no country
  is given), sorted, cut to the first 300. Each list is sorted, has no repetition and no empty
  string, and is no longer than its cap.
\<close>

theorem facet_lists_sorted_distinct_capped:
  assumes "available d"
  shows "(\<exists>cs ps. get_filter_lists d 250 = Inr (cs, ps)
            \<and> cs = take 250 (sorted_list_of_set {s. s \<noteq> [] \<and> Some s \<in> country ` set (wines d)})
            \<and> ps = take 250 (sorted_list_of_set {s. s \<noteq> [] \<and> Some s \<in> province ` set (wines d)})
            \<and> sorted cs \<and> distinct cs \<and> [] \<notin> set cs \<and> length cs \<le> 250
            \<and> sorted ps \<and> distinct ps \<and> [] \<notin> set ps \<and> length ps \<le> 250
            \<and> (\<forall>p. search d req = Inr p \<longrightarrow> countries p = cs \<and> provinces p = ps))
         \<and> (\<exists>ps. provinces_for_country d req = Inr ps
            \<and> ps = take 300 (sorted_list_of_set
                  {s. s \<noteq> [] \<and> Some s \<in> province ` {w \<in> set (wines d).
                      strip (or_default (arg req ''country'') []) \<noteq> [] \<longrightarrow>
                      country w = Some (strip (or_default (arg req ''country'') []))}})
            \<and> sorted ps \<and> distinct ps \<and> [] \<notin> set ps \<and> length ps \<le> 300)"
proof -
  let ?cs = "facet_list (distinct_values country (wines d)) 250"
  let ?ps = "facet_list (distinct_values province (wines d)) 250"
  let ?cn = "strip (or_default (arg req ''country'') [])"
  let ?docs = "find_docs d (if ?cn \<noteq> [] then And [FieldEq ''country'' ?cn] else MatchAll)"
  let ?pc = "facet_list (distinct_values province ?docs) 300"
  have g: "get_filter_lists d 250 = Inr (?cs, ?ps)"
    using assms by (simp add: get_filter_lists_def)
  have page: "countries p = ?cs \<and> provinces p = ?ps" if "search d req = Inr p" for p
  proof -
    obtain fs where "build_filters d (search_inputs req) = Inr fs"
      using build_filters_shape [of "search_inputs req" d] by blast
    with that assms g show ?thesis
      by (auto simp: search_def run_search_def Let_def)
  qed
  have first: "\<exists>cs ps. get_filter_lists d 250 = Inr (cs, ps)
            \<and> cs = take 250 (sorted_list_of_set {s. s \<noteq> [] \<and> Some s \<in> country ` set (wines d)})
            \<and> ps = take 250 (sorted_list_of_set {s. s \<noteq> [] \<and> Some s \<in> province ` set (wines d)})
            \<and> sorted cs \<and> distinct cs \<and> [] \<notin> set cs \<and> length cs \<le> 250
            \<and> sorted ps \<and> distinct ps \<and> [] \<notin> set ps \<and> length ps \<le> 250
            \<and> (\<forall>p. search d req = Inr p \<longrightarrow> countries p = cs \<and> provinces p = ps)"
    using g page facet_list_shape [of country "wines d" 250] facet_list_shape [of province "wines d" 250]
      facet_list_distinct_values [of country "wines d" 250]
      facet_list_distinct_values [of province "wines d" 250]
    by (intro exI [of _ ?cs] exI [of _ ?ps]) simp
  have docs: "set ?docs = {w \<in> set (wines d). ?cn \<noteq> [] \<longrightarrow> country w = Some ?cn}"
    by (auto simp: find_docs_country find_docs_all)
  have p: "provinces_for_country d req = Inr ?pc"
    using assms by (simp add: provinces_for_country_def Let_def)
  have second: "\<exists>ps. provinces_for_country d req = Inr ps
            \<and> ps = take 300 (sorted_list_of_set
                  {s. s \<noteq> [] \<and> Some s \<in> province ` {w \<in> set (wines d). ?cn \<noteq> [] \<longrightarrow> country w = Some ?cn}})
            \<and> sorted ps \<and> distinct ps \<and> [] \<notin> set ps \<and> length ps \<le> 300"
    using p facet_list_shape [of province ?docs 300]
      facet_list_distinct_values [of province ?docs 300]
    unfolding docs by (intro exI [of _ ?pc]) simp
  from first second show ?thesis by (intro conjI)
qed

theorem facet_lists_sorted_distinct_capped_witness:
  "available (sample_db
      [blank_wine\<lparr>country := Some ''Italy'', province := Some ''Tuscany''\<rparr>,
       blank_wine\<lparr>country := Some ''France'', province := Some ''Alsace''\<rparr>,
       blank_wine\<lparr>country := Some ''Italy'', province := Some ''''\<rparr>,
       blank_wine\<lparr>country := Some ''Italy'', province := Some ''Piedmont''\<rparr>,
       blank_wine\<lparr>country := Some ''Italy'', province := Some ''Tuscany''\<rparr>])
   \<and> get_filter_lists (sample_db
      [blank_wine\<lparr>country := Some ''Italy'', province := Some ''Tuscany''\<rparr>,
       blank_wine\<lparr>country := Some ''France'', province := Some ''Alsace''\<rparr>,
       blank_wine\<lparr>country := Some ''Italy'', province := Some ''''\<rparr>,
       blank_wine\<lparr>country := Some ''Italy'', province := Some ''Piedmont''\<rparr>,
       blank_wine\<lparr>country := Some ''Italy'', province := Some ''Tuscany''\<rparr>]) 250
      = Inr ([''France'', ''Italy''], [''Alsace'', ''Piedmont'', ''Tuscany''])
   \<and> provinces_for_country (sample_db
      [blank_wine\<lparr>country := Some ''Italy'', province := Some ''Tuscany''\<rparr>,
       blank_wine\<lparr>country := Some ''France'', province := Some ''Alsace''\<rparr>,
       blank_wine\<lparr>country := Some ''Italy'', province := Some ''''\<rparr>,
       blank_wine\<lparr>country := Some ''Italy'', province := Some ''Piedmont''\<rparr>,
       blank_wine\<lparr>country := Some ''Italy'', province := Some ''Tuscany''\<rparr>])
      (get_request [(''country'', ''Italy'')])
      = Inr [''Piedmont'', ''Tuscany'']
   \<and> sorted [''France'', ''Italy''] \<and> distinct [''Alsace'', ''Piedmont'', ''Tuscany'']
   \<and> length [''Piedmont'', ''Tuscany''] \<le> 300"
proof -
  let ?d = "sample_db
      [blank_wine\<lparr>country := Some ''Italy'', province := Some ''Tuscany''\<rparr>,
       blank_wine\<lparr>country := Some ''France'', province := Some ''Alsace''\<rparr>,
       blank_wine\<lparr>country := Some ''Italy'', province := Some ''''\<rparr>,
       blank_wine\<lparr>country := Some ''Italy'', province := Some ''Piedmont''\<rparr>,
       blank_wine\<lparr>country := Some ''Italy'', province := Some ''Tuscany''\<rparr>]"
  let ?req = "get_request [(''country'', ''Italy'')]"
  have a: "available ?d" by (simp add: sample_db_def)
  have g: "get_filter_lists ?d 250 = Inr ([''France'', ''Italy''], [''Alsace'', ''Piedmont'', ''Tuscany''])"
    by code_simp
  have p: "provinces_for_country ?d ?req = Inr [''Piedmont'', ''Tuscany'']"
    by code_simp
  from facet_lists_sorted_distinct_capped [OF a, of ?req]
  obtain cs ps ps' where
    "get_filter_lists ?d 250 = Inr (cs, ps)" and "sorted cs" and "distinct ps"
    and "provinces_for_country ?d ?req = Inr ps'" and "length ps' \<le> 300"
    by blast
  with g p have "sorted [''France'', ''Italy''] \<and> distinct [''Alsace'', ''Piedmont'', ''Tuscany'']
      \<and> length [''Piedmont'', ''Tuscany''] \<le> 300"
    by simp
  with a g p show ?thesis by (intro conjI) simp_all
qed

end
